theory Spec2Isabelle
  imports Complex_Main "HOL-Library.Word"
begin

section \<open>Arithmetic of the C++ types \<open>float\<close> and \<open>double\<close>\<close>

text \<open>
  The game is compiled by Emscripten, where \<open>float\<close> is IEEE 754 binary32 and
  \<open>double\<close> is binary64, and every operation rounds its exact result to the nearest
  representable value, ties to the even significand.  A finite floating-point value is a
  rational number, so both types are modelled as \<open>rat\<close> and every operation of the
  source is the exact operation followed by the rounding of its type.  Only the finite
  range is modelled: there is no overflow to infinity and no NaN.
\<close>

type_synonym float = rat
type_synonym double = rat

text \<open>The number of binary digits of a positive integer.\<close>

function bit_length :: "int \<Rightarrow> int" where
  "bit_length n = (if n \<le> 0 then 0 else 1 + bit_length (n div 2))"
  by pat_completeness auto
termination
  by (relation "measure nat") auto

declare bit_length.simps [simp del]

definition pow2 :: "int \<Rightarrow> rat" where
  "pow2 e = (if 0 \<le> e then 2 ^ nat e else 1 / 2 ^ nat (- e))"

text \<open>For \<open>x > 0\<close>, the exponent \<open>e\<close> with \<open>2 ^ e \<le> x < 2 ^ (e + 1)\<close>.\<close>

definition floor_log2 :: "rat \<Rightarrow> int" where
  "floor_log2 x =
     (if 1 \<le> x then bit_length \<lfloor>x\<rfloor> - 1
      else let l = bit_length \<lfloor>1 / x\<rfloor>
           in if x * pow2 (l - 1) = 1 then 1 - l else - l)"

definition round_half_even :: "rat \<Rightarrow> int" where
  "round_half_even r =
     (let f = \<lfloor>r\<rfloor>; d = r - of_int f
      in if d < 1 / 2 then f
         else if 1 / 2 < d then f + 1
         else if even f then f else f + 1)"

text \<open>
  Rounding to a binary format with \<open>p\<close> significand bits and least normal exponent
  \<open>emin\<close>: the spacing of the representable values around \<open>x\<close> is \<open>2 ^ q\<close>, where
  \<open>q\<close> never falls below the exponent of the subnormal numbers.
\<close>

definition round_float :: "int \<Rightarrow> int \<Rightarrow> rat \<Rightarrow> rat" where
  "round_float p emin x =
     (if x = 0 then 0
      else let q = max (floor_log2 \<bar>x\<bar>) emin - (p - 1);
               n = round_half_even (\<bar>x\<bar> / pow2 q)
           in sgn x * of_int n * pow2 q)"

definition f32 :: "rat \<Rightarrow> float" where
  "f32 = round_float 24 (- 126)"

definition f64 :: "rat \<Rightarrow> double" where
  "f64 = round_float 53 (- 1022)"

definition fadd :: "float \<Rightarrow> float \<Rightarrow> float" where
  "fadd a b = f32 (a + b)"

definition fsub :: "float \<Rightarrow> float \<Rightarrow> float" where
  "fsub a b = f32 (a - b)"

definition fmul :: "float \<Rightarrow> float \<Rightarrow> float" where
  "fmul a b = f32 (a * b)"

definition dsub :: "double \<Rightarrow> double \<Rightarrow> double" where
  "dsub a b = f64 (a - b)"

text \<open>The conversion \<open>float(d)\<close> of a double.\<close>

definition to_float :: "double \<Rightarrow> float" where
  "to_float d = f32 d"

section \<open>Global state of \<open>main.cpp\<close>\<close>

text \<open>\<open>struct Spike { float x; float y; }\<close>\<close>

record Spike =
  spike_x :: float
  spike_y :: float

text \<open>
  The calls into the graphics library that \<open>render\<close> issues, with their arguments.
  \<open>GLuint\<close>, \<open>GLint\<close> and \<open>int\<close> are 32-bit; a word holds the two's
  complement pattern of a signed value, so \<open>- 1\<close> is the word of all ones.
\<close>

datatype gl_call =
    glClear
  | glUseProgram "32 word"
  | glBindBuffer "32 word"
  | glEnableVertexAttribArray "32 word"
  | glVertexAttribPointer "32 word" nat
  | glUniform2f "32 word" float float
  | glUniform4f "32 word" float float float float
  | glDrawArrays nat nat
  | glDisableVertexAttribArray "32 word"

text \<open>
  The file-level variables, together with the two things the program writes outside
  them: the lines printed to standard output and the stream of graphics calls.
\<close>

record game =
  program :: "32 word"
  aPositionLoc :: "32 word"
  uTranslationLoc :: "32 word"
  uScaleLoc :: "32 word"
  uColorLoc :: "32 word"
  playerVBO :: "32 word"
  spikeVBO :: "32 word"
  playerY :: float
  playerVelocity :: float
  isOnGround :: bool
  spikeSpawnTimer :: float
  lastFrameTime :: double
  spikes :: "Spike list"
  stdout :: "string list"
  gl_calls :: "gl_call list"

text \<open>
  \<open>scrollSpeed\<close> and \<open>spikeSpawnInterval\<close> are variables that no statement of the
  program assigns; \<open>gravity\<close> and \<open>jumpVelocity\<close> are \<open>const\<close>.
\<close>

definition scrollSpeed :: float where
  "scrollSpeed = f32 (2 / 100)"

definition spikeSpawnInterval :: float where
  "spikeSpawnInterval = f32 2"

definition gravity :: float where
  "gravity = f32 (- (6 / 100))"

definition jumpVelocity :: float where
  "jumpVelocity = f32 (2 / 100)"

text \<open>
  The literals \<open>-0.4f\<close> (the ground), \<open>1.2f\<close> (where a spike appears) and \<open>-1.2f\<close>
  (where it leaves the screen).
\<close>

definition groundLevel :: float where
  "groundLevel = f32 (- (4 / 10))"

definition spawnX :: float where
  "spawnX = f32 (12 / 10)"

definition despawnX :: float where
  "despawnX = f32 (- (12 / 10))"

text \<open>The values of the variables when \<open>main\<close> starts, before \<open>initGL\<close>.\<close>

definition initial :: game where
  "initial = \<lparr>program = 0, aPositionLoc = - 1, uTranslationLoc = - 1, uScaleLoc = - 1,
     uColorLoc = - 1, playerVBO = 0, spikeVBO = 0, playerY = 0, playerVelocity = 0,
     isOnGround = True, spikeSpawnTimer = 0, lastFrameTime = 0, spikes = [],
     stdout = [], gl_calls = []\<rparr>"

section \<open>Input\<close>

definition onKeyDown :: "32 word \<Rightarrow> game \<Rightarrow> game" where
  "onKeyDown keyCode g =
     (if keyCode = 32 then
        (if isOnGround g then g\<lparr>playerVelocity := jumpVelocity, isOnGround := False\<rparr>
         else g)
      else g)"

section \<open>The frame update\<close>

text \<open>Player physics: gravity, then the move, then the ground.\<close>

definition physics :: "float \<Rightarrow> game \<Rightarrow> game" where
  "physics deltaTime g =
     (let g1 = g\<lparr>playerVelocity := fadd (playerVelocity g) (fmul gravity deltaTime)\<rparr>;
          g2 = g1\<lparr>playerY := fadd (playerY g1) (playerVelocity g1)\<rparr>
      in if playerY g2 < groundLevel
         then g2\<lparr>playerY := groundLevel, playerVelocity := 0, isOnGround := True\<rparr>
         else g2)"

text \<open>Spawning: the timer, and one spike off-screen to the right when it has run out.\<close>

definition spawn_spikes :: "float \<Rightarrow> game \<Rightarrow> game" where
  "spawn_spikes deltaTime g =
     (let g1 = g\<lparr>spikeSpawnTimer := fadd (spikeSpawnTimer g) deltaTime\<rparr>
      in if spikeSpawnInterval \<le> spikeSpawnTimer g1
         then g1\<lparr>spikeSpawnTimer := 0,
                 spikes := spikes g1 @ [\<lparr>spike_x = spawnX, spike_y = groundLevel\<rparr>]\<rparr>
         else g1)"

text \<open>Every spike moves to the left.\<close>

definition move_spike :: "float \<Rightarrow> Spike \<Rightarrow> Spike" where
  "move_spike deltaTime s =
     s\<lparr>spike_x := fsub (spike_x s) (fmul (fmul scrollSpeed deltaTime) 60)\<rparr>"

definition move_spikes :: "float \<Rightarrow> game \<Rightarrow> game" where
  "move_spikes deltaTime g = g\<lparr>spikes := map (move_spike deltaTime) (spikes g)\<rparr>"

text \<open>
  \<open>std::remove_if\<close> followed by \<open>erase\<close>: the elements for which the predicate holds
  are dropped, the others keep their places relative to each other.
\<close>

fun remove_if :: "('a \<Rightarrow> bool) \<Rightarrow> 'a list \<Rightarrow> 'a list" where
  "remove_if pred [] = []"
| "remove_if pred (a # as) = (if pred a then remove_if pred as else a # remove_if pred as)"

definition remove_offscreen :: "game \<Rightarrow> game" where
  "remove_offscreen g = g\<lparr>spikes := remove_if (\<lambda>s. spike_x s < despawnX) (spikes g)\<rparr>"

text \<open>The bounding-box test of one spike against the player, who stays at \<open>x = 0\<close>.\<close>

definition spikeWidth :: float where
  "spikeWidth = f32 (5 / 100)"

definition spikeHeight :: float where
  "spikeHeight = f32 (1 / 10)"

definition collisionX :: "Spike \<Rightarrow> bool" where
  "collisionX spike \<longleftrightarrow> \<bar>fsub (spike_x spike) 0\<bar> < fadd spikeWidth (f32 (5 / 100))"

definition collisionY :: "game \<Rightarrow> Spike \<Rightarrow> bool" where
  "collisionY g spike \<longleftrightarrow> \<bar>fsub (spike_y spike) (playerY g)\<bar> < fadd spikeHeight (f32 (5 / 100))"

text \<open>
  The collision loop over the spikes still to be visited.  The first spike that hits
  resets the player, empties the list, prints, and leaves the loop.
\<close>

fun check_collisions :: "Spike list \<Rightarrow> game \<Rightarrow> game" where
  "check_collisions [] g = g"
| "check_collisions (spike # rest) g =
     (if collisionX spike \<and> collisionY g spike
      then g\<lparr>playerY := groundLevel, playerVelocity := 0, isOnGround := True,
             spikes := [], stdout := stdout g @ [''Collision! Resetting...'']\<rparr>
      else check_collisions rest g)"

text \<open>The body of \<open>update\<close> once \<open>deltaTime\<close> is known.\<close>

definition before_collisions :: "float \<Rightarrow> game \<Rightarrow> game" where
  "before_collisions deltaTime g =
     remove_offscreen (move_spikes deltaTime (spawn_spikes deltaTime (physics deltaTime g)))"

definition step :: "float \<Rightarrow> game \<Rightarrow> game" where
  "step deltaTime g =
     (let g4 = before_collisions deltaTime g in check_collisions (spikes g4) g4)"

definition update :: "double \<Rightarrow> game \<Rightarrow> game" where
  "update currentTime g =
     (let deltaTime = to_float (dsub currentTime (lastFrameTime g))
      in step deltaTime (g\<lparr>lastFrameTime := currentTime\<rparr>))"

section \<open>Rendering\<close>

definition gl :: "gl_call \<Rightarrow> game \<Rightarrow> game" where
  "gl c g = g\<lparr>gl_calls := gl_calls g @ [c]\<rparr>"

definition draw_spike :: "Spike \<Rightarrow> game \<Rightarrow> game" where
  "draw_spike spike g =
     gl (glDrawArrays 0 3) (gl (glUniform2f (uTranslationLoc g) (spike_x spike) (spike_y spike)) g)"

definition draw_player :: "game \<Rightarrow> game" where
  "draw_player g =
     gl (glDrawArrays 0 6)
       (gl (glUniform4f (uColorLoc g) 0 0 0 1)
         (gl (glUniform2f (uScaleLoc g) 1 1)
           (gl (glUniform2f (uTranslationLoc g) 0 (playerY g))
             (gl (glVertexAttribPointer (aPositionLoc g) 2)
               (gl (glEnableVertexAttribArray (aPositionLoc g))
                 (gl (glBindBuffer (playerVBO g)) g))))))"

definition render :: "game \<Rightarrow> game" where
  "render g =
     (let g1 = gl (glUseProgram (program g)) (gl glClear g);
          g2 = draw_player g1;
          g3 = gl (glUniform4f (uColorLoc g2) 1 1 1 1)
                 (gl (glUniform2f (uScaleLoc g2) 1 1)
                   (gl (glVertexAttribPointer (aPositionLoc g2) 2)
                     (gl (glBindBuffer (spikeVBO g2)) g2)));
          g4 = fold draw_spike (spikes g3) g3
      in gl (glDisableVertexAttribArray (aPositionLoc g4)) g4)"

section \<open>The main loop\<close>

definition mainLoop :: "double \<Rightarrow> game \<Rightarrow> game" where
  "mainLoop now g = render (update now g)"

text \<open>What the host does to the program: a frame at a time, or a key.\<close>

datatype event = Frame double | KeyDown "32 word"

fun dispatch :: "event \<Rightarrow> game \<Rightarrow> game" where
  "dispatch (Frame now) g = mainLoop now g"
| "dispatch (KeyDown keyCode) g = onKeyDown keyCode g"

definition run :: "event list \<Rightarrow> game \<Rightarrow> game" where
  "run evs g = fold dispatch evs g"

section \<open>Counting spawns and a reference run\<close>

text \<open>
  The number of spikes that the spawning block of \<open>update\<close> appends while the frames
  with the given \<open>deltaTime\<close> values run, one after the other.
\<close>

fun spawned :: "float list \<Rightarrow> game \<Rightarrow> nat" where
  "spawned [] g = 0"
| "spawned (deltaTime # rest) g =
     (length (spikes (spawn_spikes deltaTime (physics deltaTime g)))
        - length (spikes (physics deltaTime g)))
     + spawned rest (step deltaTime g)"

text \<open>
  The cadence that the specification's testable properties describe, to compare
  \<open>spawned\<close> with: ``obstacle count increases by exactly one every time accumulated
  time crosses the spawn interval, regardless of frame granularity''.  This is the number
  of whole spawn intervals in the time that the frames add up to.  It follows the words
  of the specification; no function of the program computes it.
\<close>

definition spec_intervals_crossed :: "float list \<Rightarrow> nat" where
  "spec_intervals_crossed deltaTimes = nat \<lfloor>sum_list deltaTimes / spikeSpawnInterval\<rfloor>"

text \<open>
  The first four frames of a run in which the host's clock reads whole seconds, so that
  every frame has \<open>deltaTime = 1.0\<close>, and no key is pressed.
\<close>

definition frame1 :: game where
  "frame1 = update 1 initial"

definition frame2 :: game where
  "frame2 = update 2 frame1"

definition frame3 :: game where
  "frame3 = update 3 frame2"

definition frame4 :: game where
  "frame4 = update 4 frame3"

section \<open>Evaluating the arithmetic\<close>

lemma floor_rat_numeral_div [simp]:
  "\<lfloor>numeral a / numeral b :: rat\<rfloor> = numeral a div numeral b"
  by (metis floor_divide_of_int_eq of_int_numeral)

lemma floor_rat_one_div [simp]: "\<lfloor>1 / numeral b :: rat\<rfloor> = 1 div numeral b"
  by (metis floor_divide_of_int_eq of_int_numeral of_int_1)

lemma bit_length_0 [simp]: "bit_length 0 = 0"
  by (simp add: bit_length.simps)

lemma bit_length_1 [simp]: "bit_length 1 = 1"
  by (simp add: bit_length.simps)

lemma bit_length_numeral [simp]:
  "bit_length (numeral n) = 1 + bit_length (numeral n div 2)"
  by (subst bit_length.simps) simp

lemmas float_eval =
  f32_def f64_def round_float_def round_half_even_def floor_log2_def pow2_def Let_def

lemma f32_0 [simp]: "f32 0 = 0"
  by (simp add: f32_def round_float_def)

lemma gravity_val: "gravity = - (16106127 / 268435456)"
  by (simp add: gravity_def float_eval)

lemma jumpVelocity_val: "jumpVelocity = 5368709 / 268435456"
  by (simp add: jumpVelocity_def float_eval)

lemma scrollSpeed_val: "scrollSpeed = 5368709 / 268435456"
  by (simp add: scrollSpeed_def float_eval)

lemma spikeSpawnInterval_val: "spikeSpawnInterval = 2"
  by (simp add: spikeSpawnInterval_def float_eval)

lemma groundLevel_val: "groundLevel = - (13421773 / 33554432)"
  by (simp add: groundLevel_def float_eval)

lemma spawnX_val: "spawnX = 5033165 / 4194304"
  by (simp add: spawnX_def float_eval)

lemma despawnX_val: "despawnX = - (5033165 / 4194304)"
  by (simp add: despawnX_def float_eval)

lemmas arith_eval = fadd_def fsub_def fmul_def dsub_def to_float_def
  gravity_val jumpVelocity_val scrollSpeed_val spikeSpawnInterval_val groundLevel_val
  spawnX_val despawnX_val float_eval

section \<open>The rounding returns a nearest value of the format\<close>

text \<open>
  \<open>floor_log2\<close> finds the binade of its argument, and \<open>round_float\<close> returns a
  multiple of the spacing \<open>2 ^ q\<close> of that binade that is within half a spacing of the
  exact value.  The values below are the bit patterns that IEEE 754 prescribes for some
  well-known cases: decimal fractions, ties that go to the even significand, and the
  subnormal range.
\<close>

lemma bit_length_pos: "0 < n \<Longrightarrow> bit_length n = 1 + bit_length (n div 2)"
  by (subst bit_length.simps) simp

lemma bit_length_nonneg: "0 \<le> bit_length n"
  by (induction n rule: bit_length.induct) (subst bit_length.simps, simp)

lemma bit_length_bounds:
  "0 < n \<Longrightarrow> 2 ^ nat (bit_length n - 1) \<le> n \<and> n < 2 ^ nat (bit_length n)"
proof (induction n rule: bit_length.induct)
  case (1 n)
  show ?case
  proof (cases "n = 1")
    case True
    then show ?thesis by simp
  next
    case False
    with "1.prems" have m: "0 < n div 2" by simp
    with "1.prems" "1.IH" have ih: "2 ^ nat (bit_length (n div 2) - 1) \<le> n div 2"
      "n div 2 < 2 ^ nat (bit_length (n div 2))" by simp_all
    have e: "bit_length n = 1 + bit_length (n div 2)"
      using "1.prems" by (rule bit_length_pos)
    have l: "1 \<le> bit_length (n div 2)"
      using bit_length_pos [OF m] bit_length_nonneg [of "n div 2 div 2"] by simp
    have p: "(2::int) ^ nat (bit_length (n div 2)) = 2 * 2 ^ nat (bit_length (n div 2) - 1)"
      using l by (metis One_nat_def Suc_nat_eq_nat_zadd1 add.commute diff_add_cancel diff_ge_0_iff_ge power_Suc)
    have "2 ^ nat (bit_length n - 1) \<le> n"
      using ih(1) e p by (simp) linarith
    moreover have "n < 2 ^ nat (bit_length n)"
    proof -
      have "nat (bit_length n) = Suc (nat (bit_length (n div 2)))"
        using e bit_length_nonneg [of "n div 2"] by simp
      then show ?thesis using ih(2) by simp
    qed
    ultimately show ?thesis ..
  qed
qed

lemma round_half_even_near: "\<bar>r - of_int (round_half_even r)\<bar> \<le> 1 / 2"
proof -
  have "of_int \<lfloor>r\<rfloor> \<le> r" "r < of_int \<lfloor>r\<rfloor> + 1"
    by linarith+
  then show ?thesis
    by (auto simp: round_half_even_def Let_def abs_le_iff)
qed


lemma pow2_pos: "0 < pow2 e"
  by (simp add: pow2_def)

lemma pow2_Suc: "pow2 (e + 1) = 2 * pow2 e"
proof (cases "0 \<le> e")
  case True
  then show ?thesis by (simp add: pow2_def nat_add_distrib)
next
  case False
  then have "nat (- e) = Suc (nat (- (e + 1)))" by simp
  with False show ?thesis by (simp add: pow2_def)
qed

lemma floor_log2_bounds:
  assumes "0 < x"
  shows "pow2 (floor_log2 x) \<le> x \<and> x < pow2 (floor_log2 x + 1)"
proof (cases "1 \<le> x")
  case True
  let ?n = "\<lfloor>x\<rfloor>"
  have n: "0 < ?n" using True by simp
  have l: "1 \<le> bit_length ?n"
    using bit_length_pos [OF n] bit_length_nonneg [of "?n div 2"] by simp
  from bit_length_bounds [OF n]
  have b: "2 ^ nat (bit_length ?n - 1) \<le> ?n" "?n < 2 ^ nat (bit_length ?n)" by simp_all
  have "(2::rat) ^ nat (bit_length ?n - 1) = of_int (2 ^ nat (bit_length ?n - 1))" by simp
  also have "\<dots> \<le> of_int ?n" using b(1) by (simp only: of_int_le_iff)
  also have "\<dots> \<le> x" by simp
  finally have lo: "(2::rat) ^ nat (bit_length ?n - 1) \<le> x" .
  have "?n + 1 \<le> 2 ^ nat (bit_length ?n)" using b(2) by simp
  then have "(of_int (?n + 1) :: rat) \<le> of_int (2 ^ nat (bit_length ?n))"
    by (simp only: of_int_le_iff)
  moreover have "x < of_int (?n + 1)" by simp linarith
  ultimately have hi: "x < 2 ^ nat (bit_length ?n)" by simp
  show ?thesis
    using True lo hi l by (simp add: floor_log2_def pow2_def)
next
  case False
  let ?n = "\<lfloor>1 / x\<rfloor>"
  let ?l = "bit_length ?n"
  have x1: "x < 1" using False by simp
  have "1 \<le> 1 / x" using assms x1 by simp
  then have n: "0 < ?n" by simp
  have l: "1 \<le> ?l"
    using bit_length_pos [OF n] bit_length_nonneg [of "?n div 2"] by simp
  from bit_length_bounds [OF n]
  have b: "2 ^ nat (?l - 1) \<le> ?n" "?n < 2 ^ nat ?l" by simp_all
  have "(2::rat) ^ nat (?l - 1) = of_int (2 ^ nat (?l - 1))" by simp
  also have "\<dots> \<le> of_int ?n" using b(1) by (simp only: of_int_le_iff)
  also have "\<dots> \<le> 1 / x" by simp
  finally have lo: "(2::rat) ^ nat (?l - 1) \<le> 1 / x" .
  have "?n + 1 \<le> 2 ^ nat ?l" using b(2) by simp
  then have "(of_int (?n + 1) :: rat) \<le> of_int (2 ^ nat ?l)"
    by (simp only: of_int_le_iff)
  moreover have "1 / x < of_int (?n + 1)" by simp linarith
  ultimately have hi: "1 / x < 2 ^ nat ?l" by simp
  have up: "x * 2 ^ nat (?l - 1) \<le> 1"
    using lo assms by (simp add: field_simps)
  have dn: "1 < x * 2 ^ nat ?l"
    using hi assms by (simp add: field_simps)
  have p1: "pow2 (?l - 1) = 2 ^ nat (?l - 1)"
    using l by (simp add: pow2_def)
  have pm: "pow2 (- ?l) = 1 / 2 ^ nat ?l"
    using l by (simp add: pow2_def)
  have pm1: "pow2 (1 - ?l) = 1 / 2 ^ nat (?l - 1)"
    using l by (cases "?l = 1") (simp_all add: pow2_def)
  show ?thesis
  proof (cases "x * pow2 (?l - 1) = 1")
    case True
    then have fl: "floor_log2 x = 1 - ?l"
      using False by (simp add: floor_log2_def Let_def)
    have "x = pow2 (1 - ?l)"
      using True unfolding p1 pm1 by (simp add: field_simps)
    moreover have "pow2 (1 - ?l + 1) = 2 * pow2 (1 - ?l)"
      by (rule pow2_Suc)
    ultimately show ?thesis
      unfolding fl using pow2_pos [of "1 - ?l"] by simp
  next
    case ne: False
    then have fl: "floor_log2 x = - ?l"
      using False by (simp add: floor_log2_def Let_def)
    have "pow2 (- ?l) < x"
      unfolding pm using dn by (simp add: field_simps)
    moreover have "x < pow2 (- ?l + 1)"
    proof -
      have "x * 2 ^ nat (?l - 1) < 1"
        using up ne unfolding p1 by simp
      then have "x < 1 / 2 ^ nat (?l - 1)"
        by (simp add: field_simps)
      moreover have "- ?l + 1 = 1 - ?l" by simp
      ultimately show ?thesis using pm1 by simp
    qed
    ultimately show ?thesis
      unfolding fl by simp
  qed
qed

lemma round_float_near:
  assumes "x \<noteq> 0"
  shows "\<bar>round_float p emin x - x\<bar>
       \<le> pow2 (max (floor_log2 \<bar>x\<bar>) emin - (p - 1)) / 2"
proof -
  define u where "u = pow2 (max (floor_log2 \<bar>x\<bar>) emin - (p - 1))"
  define n where "n = round_half_even (\<bar>x\<bar> / u)"
  have u: "0 < u"
    unfolding u_def by (rule pow2_pos)
  have r: "round_float p emin x = sgn x * of_int n * u"
    using assms by (simp add: round_float_def Let_def n_def u_def)
  have "sgn x * of_int n * u - x = sgn x * (of_int n * u - \<bar>x\<bar>)"
    using assms by (simp add: sgn_if abs_if algebra_simps)
  then have "\<bar>sgn x * of_int n * u - x\<bar> = \<bar>of_int n * u - \<bar>x\<bar>\<bar>"
    using assms by (simp add: abs_mult abs_sgn_eq del: abs_abs)
  also have "of_int n * u - \<bar>x\<bar> = (of_int n - \<bar>x\<bar> / u) * u"
    using u by (simp add: field_simps)
  also have "\<bar>(of_int n - \<bar>x\<bar> / u) * u\<bar> = \<bar>\<bar>x\<bar> / u - of_int n\<bar> * u"
    using u by (simp add: abs_mult abs_minus_commute)
  also have "\<dots> \<le> (1 / 2) * u"
    unfolding n_def using round_half_even_near [of "\<bar>x\<bar> / u"] u
    by (intro mult_right_mono) simp_all
  finally show ?thesis
    unfolding r u_def by simp
qed

lemma f32_known_values:
  "f32 (1 / 10) = 13421773 / 134217728"
  "f32 (1 / 3) = 11184811 / 33554432"
  "f32 16777217 = 16777216"
  "f32 16777219 = 16777220"
  "f32 (- 33554431) = - 33554432"
  "f32 (1 / 2 ^ 149) = 1 / 2 ^ 149"
  "f32 (1 / 2 ^ 150) = 0"
  "f32 (3 / 2 ^ 150) = 1 / 2 ^ 148"
  by (simp_all add: float_eval)

lemma f64_known_values:
  "f64 (1 / 10) = 3602879701896397 / 36028797018963968"
  "f64 9007199254740993 = 9007199254740992"
  by (simp_all add: float_eval)

section \<open>What each part of a frame changes\<close>

lemma remove_if_filter: "remove_if pred xs = filter (\<lambda>a. \<not> pred a) xs"
  by (induction xs) simp_all

lemma length_remove_if: "length (remove_if pred xs) \<le> length xs"
  by (simp add: remove_if_filter)

lemma physics_above_ground: "groundLevel \<le> playerY (physics dt g)"
  by (simp add: physics_def Let_def)

lemma spikes_physics [simp]: "spikes (physics dt g) = spikes g"
  by (simp add: physics_def Let_def)

lemma timer_physics [simp]: "spikeSpawnTimer (physics dt g) = spikeSpawnTimer g"
  by (simp add: physics_def Let_def)

lemma playerY_spawn_spikes [simp]: "playerY (spawn_spikes dt g) = playerY g"
  by (simp add: spawn_spikes_def Let_def)

lemma playerY_move_spikes [simp]: "playerY (move_spikes dt g) = playerY g"
  by (simp add: move_spikes_def)

lemma playerY_remove_offscreen [simp]: "playerY (remove_offscreen g) = playerY g"
  by (simp add: remove_offscreen_def)

lemma playerY_before_collisions:
  "playerY (before_collisions dt g) = playerY (physics dt g)"
  by (simp add: before_collisions_def)

lemma timer_before_collisions:
  "spikeSpawnTimer (before_collisions dt g) = spikeSpawnTimer (spawn_spikes dt (physics dt g))"
  by (simp add: before_collisions_def remove_offscreen_def move_spikes_def)

lemma length_spawn_spikes: "length (spikes (spawn_spikes dt g)) \<le> length (spikes g) + 1"
  by (simp add: spawn_spikes_def Let_def)

lemma length_before_collisions:
  "length (spikes (before_collisions dt g)) \<le> length (spikes g) + 1"
proof -
  have "length (spikes (before_collisions dt g))
      \<le> length (spikes (spawn_spikes dt (physics dt g)))"
    by (simp add: before_collisions_def remove_offscreen_def move_spikes_def
        order_trans [OF length_remove_if])
  also have "\<dots> \<le> length (spikes (physics dt g)) + 1"
    by (rule length_spawn_spikes)
  finally show ?thesis by simp
qed

lemma survivors_on_screen:
  "\<forall>s\<in>set (spikes (remove_offscreen g)). despawnX \<le> spike_x s"
  by (simp add: remove_offscreen_def remove_if_filter)

subsection \<open>The collision loop\<close>

lemma check_collisions_cases:
  "check_collisions ss g = g \<or>
   check_collisions ss g =
     g\<lparr>playerY := groundLevel, playerVelocity := 0, isOnGround := True,
       spikes := [], stdout := stdout g @ [''Collision! Resetting...'']\<rparr>"
  by (induction ss) simp_all

lemma check_collisions_hit:
  "\<exists>s\<in>set ss. collisionX s \<and> collisionY g s \<Longrightarrow>
   check_collisions ss g =
     g\<lparr>playerY := groundLevel, playerVelocity := 0, isOnGround := True,
       spikes := [], stdout := stdout g @ [''Collision! Resetting...'']\<rparr>"
  by (induction ss) auto

lemma check_collisions_miss:
  "\<forall>s\<in>set ss. \<not> (collisionX s \<and> collisionY g s) \<Longrightarrow> check_collisions ss g = g"
  by (induction ss) auto

lemma check_collisions_skip:
  "\<forall>s\<in>set pre. \<not> (collisionX s \<and> collisionY g s) \<Longrightarrow>
   check_collisions (pre @ rest) g = check_collisions rest g"
  by (induction pre) auto

lemma check_collisions_above_ground:
  "groundLevel \<le> playerY g \<Longrightarrow> groundLevel \<le> playerY (check_collisions ss g)"
  using check_collisions_cases [of ss g] by auto

lemma length_check_collisions: "length (spikes (check_collisions ss g)) \<le> length (spikes g)"
  using check_collisions_cases [of ss g] by auto

lemma timer_check_collisions: "spikeSpawnTimer (check_collisions ss g) = spikeSpawnTimer g"
  using check_collisions_cases [of ss g] by auto

subsection \<open>A whole frame\<close>

lemma step_above_ground: "groundLevel \<le> playerY (step dt g)"
  by (simp add: step_def Let_def check_collisions_above_ground playerY_before_collisions
      physics_above_ground)

lemma update_above_ground: "groundLevel \<le> playerY (update now g)"
  by (simp add: update_def Let_def step_above_ground)

lemma length_step: "length (spikes (step dt g)) \<le> length (spikes g) + 1"
  unfolding step_def Let_def
  using length_check_collisions length_before_collisions order_trans by blast

lemma timer_step: "spikeSpawnTimer (step dt g) = spikeSpawnTimer (spawn_spikes dt (physics dt g))"
  by (simp add: step_def Let_def timer_check_collisions timer_before_collisions)

lemma timer_step_val:
  "spikeSpawnTimer (step dt g) =
     (if spikeSpawnInterval \<le> fadd (spikeSpawnTimer g) dt then 0
      else fadd (spikeSpawnTimer g) dt)"
  by (simp add: timer_step spawn_spikes_def Let_def)

lemma spawned_Cons_val:
  "spawned (dt # dts) g =
     (if spikeSpawnInterval \<le> fadd (spikeSpawnTimer g) dt then 1 else 0)
     + spawned dts (step dt g)"
  by (simp add: spawn_spikes_def Let_def)

lemma step_on_screen: "\<forall>s\<in>set (spikes (step dt g)). despawnX \<le> spike_x s"
proof -
  let ?g4 = "before_collisions dt g"
  have "\<forall>s\<in>set (spikes ?g4). despawnX \<le> spike_x s"
    unfolding before_collisions_def by (rule survivors_on_screen)
  moreover have "spikes (step dt g) = spikes ?g4 \<or> spikes (step dt g) = []"
    unfolding step_def Let_def using check_collisions_cases [of "spikes ?g4" ?g4] by auto
  ultimately show ?thesis by auto
qed

subsection \<open>Rendering writes only the stream of graphics calls\<close>

lemma gl_only: "(gl c g)\<lparr>gl_calls := cs\<rparr> = g\<lparr>gl_calls := cs\<rparr>"
  by (simp add: gl_def)

lemma draw_spike_only: "(draw_spike s g)\<lparr>gl_calls := cs\<rparr> = g\<lparr>gl_calls := cs\<rparr>"
  by (simp add: draw_spike_def gl_only)

lemma fold_draw_spike_only:
  "(fold draw_spike ss g)\<lparr>gl_calls := cs\<rparr> = g\<lparr>gl_calls := cs\<rparr>"
  by (induction ss arbitrary: g) (simp_all add: draw_spike_only)

lemma draw_player_only: "(draw_player g)\<lparr>gl_calls := cs\<rparr> = g\<lparr>gl_calls := cs\<rparr>"
  by (simp add: draw_player_def gl_only)

lemma render_only: "(render g)\<lparr>gl_calls := cs\<rparr> = g\<lparr>gl_calls := cs\<rparr>"
  by (simp add: render_def Let_def gl_only fold_draw_spike_only draw_player_only)

lemma render_frame: "render g = g\<lparr>gl_calls := gl_calls (render g)\<rparr>"
  using render_only [where g = g and cs = "gl_calls (render g)"] by simp

subsection \<open>Runs of events\<close>

lemma run_snoc: "run (evs @ [e]) g = dispatch e (run evs g)"
  by (simp add: run_def)

lemma mainLoop_above_ground: "groundLevel \<le> playerY (mainLoop now g)"
  unfolding mainLoop_def by (subst render_frame) (simp add: update_above_ground)

lemma onKeyDown_playerY: "playerY (onKeyDown k g) = playerY g"
  by (simp add: onKeyDown_def)

lemma dispatch_above_ground:
  "groundLevel \<le> playerY g \<Longrightarrow> groundLevel \<le> playerY (dispatch e g)"
  by (cases e) (simp_all add: mainLoop_above_ground onKeyDown_playerY)

lemma run_above_ground:
  "groundLevel \<le> playerY g \<Longrightarrow> groundLevel \<le> playerY (run evs g)"
  unfolding run_def by (induction evs arbitrary: g) (simp_all add: dispatch_above_ground)

lemma initial_above_ground: "groundLevel \<le> playerY initial"
  by (simp add: initial_def groundLevel_val)

section \<open>The reference run, frame by frame\<close>

lemmas phases_eval = before_collisions_def physics_def spawn_spikes_def move_spikes_def
  move_spike_def remove_offscreen_def

lemmas collision_eval = collisionX_def collisionY_def spikeWidth_def spikeHeight_def

lemma frame1_val:
  "frame1 = initial\<lparr>playerY := - (16106127 / 268435456),
     playerVelocity := - (16106127 / 268435456), spikeSpawnTimer := 1, lastFrameTime := 1\<rparr>"
  (is "_ = ?r")
proof -
  have dt: "to_float (dsub 1 (lastFrameTime initial)) = 1"
    by (simp add: initial_def arith_eval)
  have b: "before_collisions 1 (initial\<lparr>lastFrameTime := 1\<rparr>) = ?r"
    by (simp add: phases_eval initial_def arith_eval)
  have c: "check_collisions (spikes ?r) ?r = ?r"
    by (simp add: initial_def)
  show ?thesis
    unfolding frame1_def update_def Let_def dt step_def b c ..
qed

lemma frame2_val:
  "frame2 = initial\<lparr>playerY := - (12079595 / 67108864),
     playerVelocity := - (16106127 / 134217728), spikeSpawnTimer := 0, lastFrameTime := 2,
     spikes := [\<lparr>spike_x = 1 / 8388608, spike_y = groundLevel\<rparr>]\<rparr>"
  (is "_ = ?r")
proof -
  have dt: "to_float (dsub 2 (lastFrameTime frame1)) = 1"
    by (simp add: frame1_val arith_eval)
  have b: "before_collisions 1 (frame1\<lparr>lastFrameTime := 2\<rparr>) = ?r"
    by (simp add: phases_eval frame1_val initial_def arith_eval)
  have c: "check_collisions (spikes ?r) ?r = ?r"
    by (simp add: initial_def collision_eval arith_eval)
  show ?thesis
    unfolding frame2_def update_def Let_def dt step_def b c ..
qed

lemma frame3_val:
  "frame3 = initial\<lparr>playerY := - (12079595 / 33554432),
     playerVelocity := - (12079595 / 67108864), spikeSpawnTimer := 1, lastFrameTime := 3,
     spikes := [\<lparr>spike_x = - (1258291 / 1048576), spike_y = groundLevel\<rparr>]\<rparr>"
  (is "_ = ?r")
proof -
  have dt: "to_float (dsub 3 (lastFrameTime frame2)) = 1"
    by (simp add: frame2_val arith_eval)
  have b: "before_collisions 1 (frame2\<lparr>lastFrameTime := 3\<rparr>) = ?r"
    by (simp add: phases_eval frame2_val initial_def arith_eval)
  have c: "check_collisions (spikes ?r) ?r = ?r"
    by (simp add: initial_def collision_eval arith_eval)
  show ?thesis
    unfolding frame3_def update_def Let_def dt step_def b c ..
qed

lemma frame4_before:
  "before_collisions 1 (frame3\<lparr>lastFrameTime := 4\<rparr>) =
     initial\<lparr>playerY := groundLevel, spikeSpawnTimer := 0, lastFrameTime := 4,
       spikes := [\<lparr>spike_x = 1 / 8388608, spike_y = groundLevel\<rparr>]\<rparr>"
  by (simp add: phases_eval frame3_val initial_def arith_eval)

lemma frame4_hit:
  "collisionX \<lparr>spike_x = 1 / 8388608, spike_y = groundLevel\<rparr> \<and>
   collisionY (initial\<lparr>playerY := groundLevel, spikeSpawnTimer := 0, lastFrameTime := 4,
       spikes := [\<lparr>spike_x = 1 / 8388608, spike_y = groundLevel\<rparr>]\<rparr>)
     \<lparr>spike_x = 1 / 8388608, spike_y = groundLevel\<rparr>"
  by (simp add: initial_def collision_eval arith_eval)

lemma frame4_val:
  "frame4 = initial\<lparr>playerY := groundLevel, spikeSpawnTimer := 0, lastFrameTime := 4,
     stdout := [''Collision! Resetting...'']\<rparr>"
  (is "_ = ?r")
proof -
  let ?b = "initial\<lparr>playerY := groundLevel, spikeSpawnTimer := 0, lastFrameTime := 4,
       spikes := [\<lparr>spike_x = 1 / 8388608, spike_y = groundLevel\<rparr>]\<rparr>"
  have dt: "to_float (dsub 4 (lastFrameTime frame3)) = 1"
    by (simp add: frame3_val arith_eval)
  have c: "check_collisions (spikes ?b) ?b = ?r"
    using frame4_hit by (simp add: initial_def)
  show ?thesis
    unfolding frame4_def update_def Let_def dt step_def frame4_before c ..
qed

lemma far_spike_misses:
  "\<not> collisionX \<lparr>spike_x = - (1258291 / 1048576), spike_y = groundLevel\<rparr>"
  by (simp add: collision_eval arith_eval)

lemma resting_hit:
  "collisionX \<lparr>spike_x = 0, spike_y = groundLevel\<rparr> \<and>
   collisionY (initial\<lparr>playerY := groundLevel, spikeSpawnTimer := 3 / 2\<rparr>)
     \<lparr>spike_x = 0, spike_y = groundLevel\<rparr>"
  by (simp add: initial_def collision_eval arith_eval)

lemma three_gravity: "fmul 3 gravity = - (12079595 / 67108864)"
  by (simp add: arith_eval)

lemma frame_deltas:
  "to_float (dsub 1 (lastFrameTime initial)) = 1"
  "to_float (dsub 2 (lastFrameTime frame1)) = 1"
  "to_float (dsub 3 (lastFrameTime frame2)) = 1"
  "to_float (dsub 4 (lastFrameTime frame3)) = 1"
  by (simp_all add: frame1_val frame2_val frame3_val initial_def arith_eval)

lemma physics_val:
  "playerVelocity (physics dt g) =
     (if fadd (playerY g) (fadd (playerVelocity g) (fmul gravity dt)) < groundLevel then 0
      else fadd (playerVelocity g) (fmul gravity dt))"
  "playerY (physics dt g) =
     (if fadd (playerY g) (fadd (playerVelocity g) (fmul gravity dt)) < groundLevel
      then groundLevel
      else fadd (playerY g) (fadd (playerVelocity g) (fmul gravity dt)))"
  by (simp_all add: physics_def Let_def)

lemma timer_sums:
  "fadd 0 3 = 3" "fadd 0 1 = 1" "fadd 0 2 = 2" "fadd 0 4 = 4"
  by (simp_all add: arith_eval)

lemma scroll_per_frame: "fmul (fmul scrollSpeed 1) 60 = 10066329 / 8388608"
  by (simp add: arith_eval)

lemma scroll_positions:
  "fsub spawnX (10066329 / 8388608) = 1 / 8388608"
  "fsub (1 / 8388608) (10066329 / 8388608) = - (1258291 / 1048576)"
  "fsub (- (1258291 / 1048576)) (10066329 / 8388608) = - (1258291 / 524288)"
  by (simp_all add: arith_eval)

lemma scroll_one_frame:
  "spikes (remove_offscreen (move_spikes 1 (g\<lparr>spikes := [\<lparr>spike_x = a, spike_y = b\<rparr>]\<rparr>))) =
     (if fsub a (fmul (fmul scrollSpeed 1) 60) < despawnX then []
      else [\<lparr>spike_x = fsub a (fmul (fmul scrollSpeed 1) 60), spike_y = b\<rparr>])"
  by (simp add: remove_offscreen_def move_spikes_def move_spike_def)

section \<open>The player and the ground\<close>

text \<open>
  Claim C1.  Whatever frames and key presses came before, and from whatever state, the
  player's vertical position at the end of a frame is not below the ground level
  \<open>-0.4f\<close>: this holds for the whole of \<open>mainLoop\<close>, for \<open>update\<close> alone and for
  the body of \<open>update\<close> with any \<open>deltaTime\<close>, so in particular for every non-negative
  one.  From the initial state the position is not below the ground between frames
  either, since a key press does not move the player.
\<close>

theorem player_never_below_ground:
  "groundLevel \<le> playerY (run (evs @ [Frame now]) g) \<and>
   groundLevel \<le> playerY (update now g) \<and>
   groundLevel \<le> playerY (step dt g) \<and>
   groundLevel \<le> playerY (run evs initial)"
  by (simp add: run_snoc mainLoop_above_ground update_above_ground step_above_ground
      run_above_ground initial_above_ground)

theorem player_never_below_ground_witness:
  "groundLevel \<le> playerY (run ([Frame 1, KeyDown 32, Frame 2] @ [Frame 3]) initial)"
  using player_never_below_ground [of "[Frame 1, KeyDown 32, Frame 2]" 3 initial] by simp

section \<open>The jump\<close>

text \<open>
  Claim C5.  A press of the space key (key code 32) while the player is on the ground
  sets the velocity to \<open>jumpVelocity\<close> and clears \<open>isOnGround\<close>, and changes nothing
  else; while the player is in the air it changes nothing at all.  The result is a
  function of the state alone.
\<close>

theorem onKeyDown_jump:
  "(isOnGround g \<longrightarrow>
      onKeyDown 32 g = g\<lparr>playerVelocity := jumpVelocity, isOnGround := False\<rparr>) \<and>
   (\<not> isOnGround g \<longrightarrow> onKeyDown 32 g = g)"
  by (simp add: onKeyDown_def)

theorem onKeyDown_jump_witness:
  "isOnGround initial \<and>
   onKeyDown 32 initial = initial\<lparr>playerVelocity := jumpVelocity, isOnGround := False\<rparr> \<and>
   \<not> isOnGround (onKeyDown 32 initial) \<and>
   onKeyDown 32 (onKeyDown 32 initial) = onKeyDown 32 initial"
proof -
  have a: "isOnGround initial"
    by (simp add: initial_def)
  have b: "onKeyDown 32 initial = initial\<lparr>playerVelocity := jumpVelocity, isOnGround := False\<rparr>"
    using onKeyDown_jump [of initial] a by simp
  have c: "\<not> isOnGround (onKeyDown 32 initial)"
    by (simp add: b)
  show ?thesis
    using a b c onKeyDown_jump [of "onKeyDown 32 initial"] by simp
qed

section \<open>Rendering\<close>

text \<open>
  Claim C8.  \<open>render\<close> leaves the player's position, velocity and on-ground flag, the
  list of spikes and the spawn timer as they were: the only thing that differs after the
  call is the stream of graphics calls issued.
\<close>

theorem render_keeps_world:
  "playerY (render g) = playerY g \<and>
   playerVelocity (render g) = playerVelocity g \<and>
   isOnGround (render g) = isOnGround g \<and>
   spikes (render g) = spikes g \<and>
   spikeSpawnTimer (render g) = spikeSpawnTimer g \<and>
   render g = g\<lparr>gl_calls := gl_calls (render g)\<rparr>"
proof -
  have "render g = g\<lparr>gl_calls := gl_calls (render g)\<rparr>"
    by (rule render_frame)
  then obtain cs where "render g = g\<lparr>gl_calls := cs\<rparr>" ..
  then show ?thesis by simp
qed

theorem render_keeps_world_witness:
  "playerY (render frame2) = playerY frame2 \<and> spikes (render frame2) = spikes frame2"
  using render_keeps_world [of frame2] by simp

section \<open>Collisions\<close>

text \<open>
  Claim C2.  If, when the collision loop of a frame starts, some spike that survived the
  pruning overlaps the player's box, then at the end of the frame the player is at
  \<open>-0.4f\<close> with velocity 0 and \<open>isOnGround\<close> set, and the list of spikes is empty.
  The loop stops at the first spike that overlaps: whatever spikes follow it in the list,
  the result is the same reset state, with the message printed once.
\<close>

theorem collision_resets_frame:
  "((\<exists>s\<in>set (spikes (before_collisions dt g)).
        collisionX s \<and> collisionY (before_collisions dt g) s) \<longrightarrow>
      playerY (step dt g) = groundLevel \<and> playerVelocity (step dt g) = 0 \<and>
      isOnGround (step dt g) \<and> spikes (step dt g) = []) \<and>
   ((\<forall>t\<in>set pre. \<not> (collisionX t \<and> collisionY h t)) \<and> collisionX s \<and> collisionY h s \<longrightarrow>
      check_collisions (pre @ s # post) h =
        h\<lparr>playerY := groundLevel, playerVelocity := 0, isOnGround := True,
          spikes := [], stdout := stdout h @ [''Collision! Resetting...'']\<rparr>)"
proof (intro conjI impI)
  assume hit: "\<exists>s\<in>set (spikes (before_collisions dt g)).
      collisionX s \<and> collisionY (before_collisions dt g) s"
  have r: "step dt g = (before_collisions dt g)\<lparr>playerY := groundLevel, playerVelocity := 0,
      isOnGround := True, spikes := [],
      stdout := stdout (before_collisions dt g) @ [''Collision! Resetting...'']\<rparr>"
    unfolding step_def Let_def by (rule check_collisions_hit [OF hit])
  show "playerY (step dt g) = groundLevel" by (simp add: r)
  show "playerVelocity (step dt g) = 0" by (simp add: r)
  show "isOnGround (step dt g)" by (simp add: r)
  show "spikes (step dt g) = []" by (simp add: r)
next
  assume a: "(\<forall>t\<in>set pre. \<not> (collisionX t \<and> collisionY h t)) \<and> collisionX s \<and> collisionY h s"
  then have "check_collisions (pre @ s # post) h = check_collisions (s # post) h"
    by (simp add: check_collisions_skip)
  with a show "check_collisions (pre @ s # post) h =
        h\<lparr>playerY := groundLevel, playerVelocity := 0, isOnGround := True,
          spikes := [], stdout := stdout h @ [''Collision! Resetting...'']\<rparr>"
    by simp
qed

theorem collision_resets_frame_witness:
  "(\<exists>s\<in>set (spikes (before_collisions 1 (frame3\<lparr>lastFrameTime := 4\<rparr>))).
        collisionX s \<and> collisionY (before_collisions 1 (frame3\<lparr>lastFrameTime := 4\<rparr>)) s) \<and>
   playerY (step 1 (frame3\<lparr>lastFrameTime := 4\<rparr>)) = groundLevel \<and>
   playerVelocity (step 1 (frame3\<lparr>lastFrameTime := 4\<rparr>)) = 0 \<and>
   isOnGround (step 1 (frame3\<lparr>lastFrameTime := 4\<rparr>)) \<and>
   spikes (step 1 (frame3\<lparr>lastFrameTime := 4\<rparr>)) = [] \<and>
   stdout (check_collisions
       ([\<lparr>spike_x = - (1258291 / 1048576), spike_y = groundLevel\<rparr>]
        @ \<lparr>spike_x = 1 / 8388608, spike_y = groundLevel\<rparr>
        # [\<lparr>spike_x = 1 / 8388608, spike_y = groundLevel\<rparr>])
       (before_collisions 1 (frame3\<lparr>lastFrameTime := 4\<rparr>)))
     = [''Collision! Resetting...'']"
proof -
  let ?g = "frame3\<lparr>lastFrameTime := 4\<rparr>"
  have hit: "\<exists>s\<in>set (spikes (before_collisions 1 ?g)).
        collisionX s \<and> collisionY (before_collisions 1 ?g) s"
    unfolding frame4_before using frame4_hit by simp
  have first: "(\<forall>t\<in>set [\<lparr>spike_x = - (1258291 / 1048576), spike_y = groundLevel\<rparr>].
        \<not> (collisionX t \<and> collisionY (before_collisions 1 ?g) t)) \<and>
      collisionX \<lparr>spike_x = 1 / 8388608, spike_y = groundLevel\<rparr> \<and>
      collisionY (before_collisions 1 ?g) \<lparr>spike_x = 1 / 8388608, spike_y = groundLevel\<rparr>"
    unfolding frame4_before using frame4_hit far_spike_misses by simp
  have out: "stdout (before_collisions 1 ?g) = []"
    unfolding frame4_before by (simp add: initial_def)
  show ?thesis
    using hit first out
      collision_resets_frame [of 1 ?g
        "[\<lparr>spike_x = - (1258291 / 1048576), spike_y = groundLevel\<rparr>]"
        "before_collisions 1 ?g"
        "\<lparr>spike_x = 1 / 8388608, spike_y = groundLevel\<rparr>"
        "[\<lparr>spike_x = 1 / 8388608, spike_y = groundLevel\<rparr>]"]
    by simp
qed

text \<open>
  Claim C10.  The collision loop does not touch the spawn timer: after a frame, with or
  without a collision, the timer has the value the spawning block left in it.  A collision
  writes the player's position, velocity and on-ground flag and the list of spikes (and
  prints its message); every other variable keeps its value.
\<close>

theorem collision_keeps_spawn_timer:
  "spikeSpawnTimer (check_collisions ss h) = spikeSpawnTimer h \<and>
   lastFrameTime (check_collisions ss h) = lastFrameTime h \<and>
   spikeSpawnTimer (step dt g) = spikeSpawnTimer (spawn_spikes dt (physics dt g)) \<and>
   ((\<exists>s\<in>set ss. collisionX s \<and> collisionY h s) \<longrightarrow>
      check_collisions ss h =
        h\<lparr>playerY := groundLevel, playerVelocity := 0, isOnGround := True,
          spikes := [], stdout := stdout h @ [''Collision! Resetting...'']\<rparr>)"
proof -
  have "lastFrameTime (check_collisions ss h) = lastFrameTime h"
    using check_collisions_cases [of ss h] by auto
  then show ?thesis
    by (simp add: timer_check_collisions timer_step check_collisions_hit)
qed

theorem collision_keeps_spawn_timer_witness:
  "(\<exists>s\<in>set [\<lparr>spike_x = 0, spike_y = groundLevel\<rparr>].
      collisionX s \<and> collisionY (initial\<lparr>playerY := groundLevel, spikeSpawnTimer := 3 / 2\<rparr>) s) \<and>
   spikeSpawnTimer (check_collisions [\<lparr>spike_x = 0, spike_y = groundLevel\<rparr>]
      (initial\<lparr>playerY := groundLevel, spikeSpawnTimer := 3 / 2\<rparr>)) = 3 / 2 \<and>
   check_collisions [\<lparr>spike_x = 0, spike_y = groundLevel\<rparr>]
      (initial\<lparr>playerY := groundLevel, spikeSpawnTimer := 3 / 2\<rparr>) =
     initial\<lparr>playerY := groundLevel, spikeSpawnTimer := 3 / 2,
       stdout := [''Collision! Resetting...'']\<rparr>"
proof -
  let ?h = "initial\<lparr>playerY := groundLevel, spikeSpawnTimer := 3 / 2\<rparr>"
  have hit: "\<exists>s\<in>set [\<lparr>spike_x = 0, spike_y = groundLevel\<rparr>]. collisionX s \<and> collisionY ?h s"
    using resting_hit by simp
  show ?thesis
    using hit collision_keeps_spawn_timer [of "[\<lparr>spike_x = 0, spike_y = groundLevel\<rparr>]" ?h]
    by (simp add: initial_def)
qed

section \<open>Pruning\<close>

text \<open>
  Claim C4.  After the pruning of a frame the list holds exactly the spikes whose \<open>x\<close> is
  at or above \<open>-1.2f\<close>, in the order they had; a spike that was removed had \<open>x\<close> below
  \<open>-1.2f\<close> when it was removed; and no spike with \<open>x\<close> below \<open>-1.2f\<close> is in the list
  when a frame has completed.  Removal here is removal by the pruning; a collision later
  in the frame empties the list whatever the positions of the spikes are.
\<close>

theorem pruning_exact:
  "spikes (remove_offscreen g) = filter (\<lambda>s. despawnX \<le> spike_x s) (spikes g) \<and>
   spikes (before_collisions dt g) =
     filter (\<lambda>s. despawnX \<le> spike_x s)
       (spikes (move_spikes dt (spawn_spikes dt (physics dt g)))) \<and>
   (\<forall>s\<in>set (spikes g). s \<notin> set (spikes (remove_offscreen g)) \<longrightarrow> spike_x s < despawnX) \<and>
   (\<forall>s\<in>set (spikes (step dt g)). despawnX \<le> spike_x s) \<and>
   (\<forall>s\<in>set (spikes (update now g)). despawnX \<le> spike_x s)"
proof -
  have eq: "spikes (remove_offscreen h) = filter (\<lambda>s. despawnX \<le> spike_x s) (spikes h)" for h
    by (simp add: remove_offscreen_def remove_if_filter not_less)
  have "\<forall>s\<in>set (spikes g). s \<notin> set (spikes (remove_offscreen g)) \<longrightarrow> spike_x s < despawnX"
    by (auto simp: eq)
  moreover have "\<forall>s\<in>set (spikes (update now g)). despawnX \<le> spike_x s"
    unfolding update_def Let_def by (rule step_on_screen)
  ultimately show ?thesis
    using eq [of g] eq [of "move_spikes dt (spawn_spikes dt (physics dt g))"] step_on_screen [of dt g]
    by (simp add: before_collisions_def)
qed

theorem pruning_exact_witness:
  "spikes (remove_offscreen (initial\<lparr>spikes :=
       [\<lparr>spike_x = 0, spike_y = groundLevel\<rparr>, \<lparr>spike_x = - 2, spike_y = groundLevel\<rparr>,
        \<lparr>spike_x = despawnX, spike_y = groundLevel\<rparr>, \<lparr>spike_x = - 3, spike_y = groundLevel\<rparr>,
        \<lparr>spike_x = 1, spike_y = groundLevel\<rparr>]\<rparr>))
     = [\<lparr>spike_x = 0, spike_y = groundLevel\<rparr>, \<lparr>spike_x = despawnX, spike_y = groundLevel\<rparr>,
        \<lparr>spike_x = 1, spike_y = groundLevel\<rparr>] \<and>
   spikes (update 3 frame2) = [\<lparr>spike_x = - (1258291 / 1048576), spike_y = groundLevel\<rparr>] \<and>
   despawnX \<le> - (1258291 / 1048576) \<and> - 2 < despawnX \<and> - 3 < despawnX"
proof -
  let ?g = "initial\<lparr>spikes :=
       [\<lparr>spike_x = 0, spike_y = groundLevel\<rparr>, \<lparr>spike_x = - 2, spike_y = groundLevel\<rparr>,
        \<lparr>spike_x = despawnX, spike_y = groundLevel\<rparr>, \<lparr>spike_x = - 3, spike_y = groundLevel\<rparr>,
        \<lparr>spike_x = 1, spike_y = groundLevel\<rparr>]\<rparr>"
  have f3: "spikes (update 3 frame2) = [\<lparr>spike_x = - (1258291 / 1048576), spike_y = groundLevel\<rparr>]"
    using frame3_val by (simp add: frame3_def)
  show ?thesis
    using pruning_exact [where g = ?g] pruning_exact [where g = frame2 and now = 3] f3
    by (simp add: despawnX_val)
qed

section \<open>Spawning\<close>

text \<open>
  Claim C9.  One call of \<open>update\<close> makes the list of spikes longer by at most one, for
  every \<open>deltaTime\<close>.  When the timer has reached the interval the spawning block appends
  exactly one spike, however far beyond the interval the timer is.
\<close>

theorem spawn_at_most_one:
  "length (spikes (spawn_spikes dt g)) \<le> length (spikes g) + 1 \<and>
   length (spikes (step dt g)) \<le> length (spikes g) + 1 \<and>
   length (spikes (update now g)) \<le> length (spikes g) + 1 \<and>
   (spikeSpawnInterval \<le> fadd (spikeSpawnTimer g) dt \<longrightarrow>
      spikes (spawn_spikes dt g) = spikes g @ [\<lparr>spike_x = spawnX, spike_y = groundLevel\<rparr>]) \<and>
   (\<not> spikeSpawnInterval \<le> fadd (spikeSpawnTimer g) dt \<longrightarrow>
      spikes (spawn_spikes dt g) = spikes g)"
proof -
  have "length (spikes (update now g)) \<le> length (spikes g) + 1"
    unfolding update_def Let_def using length_step [of _ "g\<lparr>lastFrameTime := now\<rparr>"] by simp
  moreover have "length (spikes (spawn_spikes dt g)) \<le> length (spikes g) + 1"
    by (rule length_spawn_spikes)
  moreover have "length (spikes (step dt g)) \<le> length (spikes g) + 1"
    by (rule length_step)
  moreover have "spikeSpawnInterval \<le> fadd (spikeSpawnTimer g) dt \<longrightarrow>
      spikes (spawn_spikes dt g) = spikes g @ [\<lparr>spike_x = spawnX, spike_y = groundLevel\<rparr>]"
    by (simp add: spawn_spikes_def Let_def)
  moreover have "\<not> spikeSpawnInterval \<le> fadd (spikeSpawnTimer g) dt \<longrightarrow>
      spikes (spawn_spikes dt g) = spikes g"
    by (simp add: spawn_spikes_def Let_def)
  ultimately show ?thesis
    by blast
qed

theorem spawn_at_most_one_witness:
  "spikeSpawnInterval * 2 \<le> fadd (spikeSpawnTimer initial) 5 \<and>
   spikes (spawn_spikes 5 initial) = [\<lparr>spike_x = spawnX, spike_y = groundLevel\<rparr>] \<and>
   \<not> spikeSpawnInterval \<le> fadd (spikeSpawnTimer initial) 1 \<and>
   spikes (spawn_spikes 1 initial) = []"
proof -
  have a: "fadd (spikeSpawnTimer initial) 5 = 5" "fadd (spikeSpawnTimer initial) 1 = 1"
    by (simp_all add: initial_def arith_eval)
  have s: "spikes initial = []"
    by (simp add: initial_def)
  show ?thesis
    using spawn_at_most_one [of 5 initial] spawn_at_most_one [of 1 initial]
    by (simp add: a s spikeSpawnInterval_val)
qed

text \<open>
  Claim C3, as stated: the number of spikes spawned goes up by one each time the
  accumulated time crosses a multiple of the spawn interval, however the time is divided
  into frames, because the timer carries the remainder.  The program does not do this.
  Two frames of 3 s and 1 s add up to 4 s, which crosses two multiples of the interval
  of 2 s, and spawn one spike; two frames of 2 s each spawn two; and after the frame of
  3 s the timer is 0, not the remainder 1.
\<close>

theorem spawn_cadence_counterexample:
  "spawned [3, 1] initial = 1 \<and> spec_intervals_crossed [3, 1] = 2 \<and>
   spawned [2, 2] initial = 2 \<and> spec_intervals_crossed [2, 2] = 2 \<and>
   spawned [4] initial = 1 \<and> spec_intervals_crossed [4] = 2 \<and>
   spikeSpawnTimer (step 3 initial) = 0"
proof -
  have t: "spikeSpawnTimer initial = 0"
    by (simp add: initial_def)
  have a: "spawned [3, 1] initial = 1" "spawned [2, 2] initial = 2" "spawned [4] initial = 1"
    by (simp_all add: spawned_Cons_val timer_step_val t timer_sums spikeSpawnInterval_val
        del: spawned.simps(2))
  have b: "spec_intervals_crossed [3, 1] = 2" "spec_intervals_crossed [2, 2] = 2" "spec_intervals_crossed [4] = 2"
    by (simp_all add: spec_intervals_crossed_def spikeSpawnInterval_val)
  have c: "spikeSpawnTimer (step 3 initial) = 0"
    by (simp add: timer_step_val t timer_sums spikeSpawnInterval_val)
  show ?thesis
    using a b c by simp
qed

text \<open>
  Claim C3, amended.  Each frame adds \<open>deltaTime\<close> to the timer.  If the timer has then
  reached the interval, the frame spawns exactly one spike and sets the timer to 0,
  dropping whatever exceeded the interval; otherwise it spawns none and the timer keeps
  the sum.  The number of spikes spawned over a run is the number of frames in which the
  timer reached the interval, so it depends on how the time is divided into frames.
\<close>

theorem spawn_timer_resets:
  "spawned (dt # dts) g =
     (if spikeSpawnInterval \<le> fadd (spikeSpawnTimer g) dt then 1 else 0)
     + spawned dts (step dt g) \<and>
   spikeSpawnTimer (step dt g) =
     (if spikeSpawnInterval \<le> fadd (spikeSpawnTimer g) dt then 0
      else fadd (spikeSpawnTimer g) dt) \<and>
   spikes (spawn_spikes dt g) =
     (if spikeSpawnInterval \<le> fadd (spikeSpawnTimer g) dt
      then spikes g @ [\<lparr>spike_x = spawnX, spike_y = groundLevel\<rparr>] else spikes g)"
proof -
  have "spikes (spawn_spikes dt g) =
     (if spikeSpawnInterval \<le> fadd (spikeSpawnTimer g) dt
      then spikes g @ [\<lparr>spike_x = spawnX, spike_y = groundLevel\<rparr>] else spikes g)"
    by (simp add: spawn_spikes_def Let_def)
  then show ?thesis
    using spawned_Cons_val [of dt dts g] timer_step_val [of dt g] by blast
qed

theorem spawn_timer_resets_witness:
  "spawned [3, 1] initial = 1 \<and> spikeSpawnTimer (step 3 initial) = 0 \<and>
   spikeSpawnTimer (step 1 (step 3 initial)) = 1 \<and>
   spikes (spawn_spikes 3 initial) = [\<lparr>spike_x = spawnX, spike_y = groundLevel\<rparr>]"
proof -
  have t: "spikeSpawnTimer initial = 0" "spikes initial = []"
    by (simp_all add: initial_def)
  have a: "spikeSpawnTimer (step 3 initial) = 0"
    "spikes (spawn_spikes 3 initial) = [\<lparr>spike_x = spawnX, spike_y = groundLevel\<rparr>]"
    "spawned [3, 1] initial = 1 + spawned [1] (step 3 initial)"
    using spawn_timer_resets [of 3 "[1]" initial]
    by (simp_all add: t timer_sums spikeSpawnInterval_val del: spawned.simps(2))
  have b: "spikeSpawnTimer (step 1 (step 3 initial)) = 1"
    "spawned [1] (step 3 initial) = 0"
    using spawn_timer_resets [of 1 "[]" "step 3 initial"]
    by (simp_all add: a timer_sums spikeSpawnInterval_val del: spawned.simps(2))
  show ?thesis
    using a b by simp
qed

section \<open>Gravity\<close>

text \<open>
  Claim C6.  From the initial state, with no key pressed and \<open>deltaTime = 1.0\<close> in each
  of three frames, the velocity after the third frame is \<open>3 * gravity\<close>, computed the
  way the program computes with \<open>float\<close>; the position goes strictly down in each of the
  three frames and is still above the ground after the third, and the fourth frame
  clamps it to the ground.  In every frame the physics adds \<open>gravity * deltaTime\<close> to
  the velocity and then the velocity itself, not scaled by \<open>deltaTime\<close>, to the
  position, unless the ground stops the player.
\<close>

theorem three_frames_of_gravity:
  "frame1 = step 1 (initial\<lparr>lastFrameTime := 1\<rparr>) \<and>
   frame2 = step 1 (frame1\<lparr>lastFrameTime := 2\<rparr>) \<and>
   frame3 = step 1 (frame2\<lparr>lastFrameTime := 3\<rparr>) \<and>
   frame4 = step 1 (frame3\<lparr>lastFrameTime := 4\<rparr>) \<and>
   playerVelocity frame1 = gravity \<and>
   playerVelocity frame2 = fmul 2 gravity \<and>
   playerVelocity frame3 = fmul 3 gravity \<and>
   playerY frame1 < playerY initial \<and>
   playerY frame2 < playerY frame1 \<and>
   playerY frame3 < playerY frame2 \<and>
   groundLevel < playerY frame3 \<and>
   playerY frame4 = groundLevel \<and>
   playerVelocity (physics dt g) =
     (if fadd (playerY g) (fadd (playerVelocity g) (fmul gravity dt)) < groundLevel then 0
      else fadd (playerVelocity g) (fmul gravity dt)) \<and>
   playerY (physics dt g) =
     (if fadd (playerY g) (fadd (playerVelocity g) (fmul gravity dt)) < groundLevel
      then groundLevel
      else fadd (playerY g) (fadd (playerVelocity g) (fmul gravity dt)))"
proof -
  have s: "frame1 = step 1 (initial\<lparr>lastFrameTime := 1\<rparr>)"
    "frame2 = step 1 (frame1\<lparr>lastFrameTime := 2\<rparr>)"
    "frame3 = step 1 (frame2\<lparr>lastFrameTime := 3\<rparr>)"
    "frame4 = step 1 (frame3\<lparr>lastFrameTime := 4\<rparr>)"
    unfolding frame1_def [unfolded update_def Let_def frame_deltas]
      frame2_def [unfolded update_def Let_def frame_deltas]
      frame3_def [unfolded update_def Let_def frame_deltas]
      frame4_def [unfolded update_def Let_def frame_deltas]
    by (rule refl)+
  have v: "playerVelocity frame1 = gravity" "playerVelocity frame2 = fmul 2 gravity"
    "playerVelocity frame3 = fmul 3 gravity"
    by (simp_all add: frame1_val frame2_val frame3_val arith_eval)
  have y: "playerY frame1 < playerY initial" "playerY frame2 < playerY frame1"
    "playerY frame3 < playerY frame2" "groundLevel < playerY frame3"
    "playerY frame4 = groundLevel"
    by (simp_all add: frame1_val frame2_val frame3_val frame4_val initial_def groundLevel_val)
  show ?thesis
    using s v y physics_val [of dt g] by blast
qed


theorem three_frames_of_gravity_witness:
  "playerVelocity frame3 = fmul 3 gravity \<and> playerY frame3 < playerY frame2 \<and>
   playerY frame2 < playerY frame1 \<and> playerY frame1 < playerY initial"
  using three_frames_of_gravity [of 1 initial] by blast

section \<open>Scrolling\<close>

text \<open>
  Claim C7, as stated: a spike spawned at \<open>x = 1.2\<close> and fed \<open>deltaTime = 1.0\<close> per
  frame moves by 1.2 each frame and is pruned after the first frame in which it is
  advanced.  In the reference run the second frame spawns a spike at \<open>1.2f\<close> and
  advances it; at the end of that frame it is in the list with \<open>x = 2\<^sup>-\<^sup>2\<^sup>3\<close>, which is
  not below \<open>-1.2f\<close>, and it is still in the list at the end of the third frame.  The
  distance moved per frame is the \<open>float\<close> product, a little less than 1.2.
\<close>

theorem spike_survives_first_frame:
  "spikes frame1 = [] \<and>
   spikes (spawn_spikes 1 (physics 1 (frame1\<lparr>lastFrameTime := 2\<rparr>))) =
     [\<lparr>spike_x = spawnX, spike_y = groundLevel\<rparr>] \<and>
   spikes frame2 = [\<lparr>spike_x = 1 / 8388608, spike_y = groundLevel\<rparr>] \<and>
   \<not> 1 / 8388608 < despawnX \<and>
   spikes frame3 = [\<lparr>spike_x = - (1258291 / 1048576), spike_y = groundLevel\<rparr>] \<and>
   \<not> - (1258291 / 1048576) < despawnX \<and>
   fmul (fmul scrollSpeed 1) 60 < 12 / 10 \<and>
   fmul (fmul scrollSpeed 1) 60 < f32 (12 / 10)"
proof -
  have a: "spikes (spawn_spikes 1 (physics 1 (frame1\<lparr>lastFrameTime := 2\<rparr>))) =
     [\<lparr>spike_x = spawnX, spike_y = groundLevel\<rparr>]"
    by (simp add: spawn_spikes_def frame1_val initial_def arith_eval)
  have b: "spikes frame1 = []"
    "spikes frame2 = [\<lparr>spike_x = 1 / 8388608, spike_y = groundLevel\<rparr>]"
    "spikes frame3 = [\<lparr>spike_x = - (1258291 / 1048576), spike_y = groundLevel\<rparr>]"
    by (simp_all add: frame1_val frame2_val frame3_val initial_def)
  show ?thesis
    using a b spawnX_val [unfolded spawnX_def]
    by (simp add: scroll_per_frame despawnX_val)
qed

text \<open>
  Claim C7, amended.  Every frame takes the \<open>float\<close> product
  \<open>scrollSpeed * deltaTime * 60\<close> off the \<open>x\<close> of every spike; for \<open>deltaTime = 1.0\<close>
  this is \<open>10066329 / 2\<^sup>2\<^sup>3\<close>, about 1.19999993.  A spike spawned at \<open>1.2f\<close> is at
  \<open>2\<^sup>-\<^sup>2\<^sup>3\<close> after the first frame in which it is advanced and at about -1.19999981
  after the second, both not below \<open>-1.2f\<close>, so the pruning keeps it; the third frame
  takes it to about -2.39999962 and the pruning of that frame removes it.
\<close>

theorem spike_pruned_in_third_frame:
  "spike_x (move_spike dt s) = fsub (spike_x s) (fmul (fmul scrollSpeed dt) 60) \<and>
   fmul (fmul scrollSpeed 1) 60 = 10066329 / 8388608 \<and>
   spikes (remove_offscreen (move_spikes 1
       (g\<lparr>spikes := [\<lparr>spike_x = spawnX, spike_y = groundLevel\<rparr>]\<rparr>))) =
     [\<lparr>spike_x = 1 / 8388608, spike_y = groundLevel\<rparr>] \<and>
   spikes (remove_offscreen (move_spikes 1
       (g\<lparr>spikes := [\<lparr>spike_x = 1 / 8388608, spike_y = groundLevel\<rparr>]\<rparr>))) =
     [\<lparr>spike_x = - (1258291 / 1048576), spike_y = groundLevel\<rparr>] \<and>
   spikes (remove_offscreen (move_spikes 1
       (g\<lparr>spikes := [\<lparr>spike_x = - (1258291 / 1048576), spike_y = groundLevel\<rparr>]\<rparr>))) = [] \<and>
   spikes (before_collisions 1 (frame3\<lparr>lastFrameTime := 4\<rparr>)) =
     [\<lparr>spike_x = 1 / 8388608, spike_y = groundLevel\<rparr>]"
proof -
  have "spike_x (move_spike dt s) = fsub (spike_x s) (fmul (fmul scrollSpeed dt) 60)"
    by (simp add: move_spike_def)
  moreover have "spikes (before_collisions 1 (frame3\<lparr>lastFrameTime := 4\<rparr>)) =
     [\<lparr>spike_x = 1 / 8388608, spike_y = groundLevel\<rparr>]"
    unfolding frame4_before by simp
  ultimately show ?thesis
    by (simp add: scroll_one_frame scroll_per_frame scroll_positions despawnX_val)
qed


theorem spike_pruned_in_third_frame_witness:
  "spikes (remove_offscreen (move_spikes 1
       (initial\<lparr>spikes := [\<lparr>spike_x = - (1258291 / 1048576), spike_y = groundLevel\<rparr>]\<rparr>))) = [] \<and>
   spikes (remove_offscreen (move_spikes 1
       (initial\<lparr>spikes := [\<lparr>spike_x = spawnX, spike_y = groundLevel\<rparr>]\<rparr>))) =
     [\<lparr>spike_x = 1 / 8388608, spike_y = groundLevel\<rparr>]"
  using spike_pruned_in_third_frame [of 1 "\<lparr>spike_x = spawnX, spike_y = groundLevel\<rparr>" initial]
  by simp

end
